theory Spec2Isabelle
  imports Main
begin

section \<open>Text\<close>

text \<open>
  Python text is modelled as \<^typ>\<open>string\<close>: the UTF-8 bytes of the text. The operations
  the program uses on text (\<^verbatim>\<open>lower\<close>, \<^verbatim>\<open>in\<close>, \<^verbatim>\<open>strip\<close>,
  \<^verbatim>\<open>replace\<close>) are written out for ASCII; bytes above 127 are left alone.
\<close>

definition lower_char :: "char \<Rightarrow> char" where
  "lower_char c =
     (let n = (of_char c :: nat) in if 65 \<le> n \<and> n \<le> 90 then char_of (n + 32) else c)"

definition lower :: "string \<Rightarrow> string" where
  "lower s = map lower_char s"

fun starts_with :: "string \<Rightarrow> string \<Rightarrow> bool" where
  "starts_with [] s = True"
| "starts_with (p # ps) [] = False"
| "starts_with (p # ps) (c # cs) = (p = c \<and> starts_with ps cs)"

text \<open>\<^verbatim>\<open>sub in s\<close>: \<open>sub\<close> occurs in \<open>s\<close> as a contiguous run.\<close>

fun contains :: "string \<Rightarrow> string \<Rightarrow> bool" where
  "contains sub [] = (sub = [])"
| "contains sub (c # cs) = (starts_with sub (c # cs) \<or> contains sub cs)"

definition is_space :: "char \<Rightarrow> bool" where
  "is_space c =
     (let n = (of_char c :: nat) in (9 \<le> n \<and> n \<le> 13) \<or> (28 \<le> n \<and> n \<le> 32))"

definition strip :: "string \<Rightarrow> string" where
  "strip s = rev (dropWhile is_space (rev (dropWhile is_space s)))"

text \<open>\<^verbatim>\<open>s.replace(' ', '_')\<close>\<close>

definition replace_space :: "string \<Rightarrow> string" where
  "replace_space s = map (\<lambda>c. if c = CHR '' '' then CHR ''_'' else c) s"

fun digit_char :: "nat \<Rightarrow> char" where
  "digit_char n = char_of (48 + n mod 10)"

text \<open>\<^verbatim>\<open>str(n)\<close> for a natural number, given the number of decimal places to try.\<close>

fun digits_of :: "nat \<Rightarrow> nat \<Rightarrow> string" where
  "digits_of 0 n = []"
| "digits_of (Suc k) n = digits_of k (n div 10) @ [digit_char n]"

text \<open>A number zero-padded to \<open>k\<close> places, as \<^verbatim>\<open>%m\<close>, \<^verbatim>\<open>%d\<close> and
  \<^verbatim>\<open>%Y\<close> of \<^verbatim>\<open>strftime\<close> print it.\<close>

definition pad :: "nat \<Rightarrow> nat \<Rightarrow> string" where
  "pad k n = digits_of k n"

section \<open>The verdict of a reply\<close>

text \<open>
  \<^verbatim>\<open>
  if "pass" in ai_response.lower():   pass_fail = "PASSED"
  elif "fail" in ai_response.lower(): pass_fail = "FAILED"
  else:                               pass_fail = "UNKNOWN"
  \<close>
\<close>

definition pass_fail_of :: "string \<Rightarrow> string" where
  "pass_fail_of ai_response =
     (if contains ''pass'' (lower ai_response) then ''PASSED''
      else if contains ''fail'' (lower ai_response) then ''FAILED''
      else ''UNKNOWN'')"

definition compliant_of :: "string \<Rightarrow> string" where
  "compliant_of ai_response =
     (if contains ''pass'' (lower ai_response) then ''YES''
      else if contains ''fail'' (lower ai_response) then ''NO''
      else ''UNKNOWN'')"

section \<open>Cells, tables and the pandas operations the program uses\<close>

record date =
  year :: nat
  month :: nat
  day :: nat

definition date_le :: "date \<Rightarrow> date \<Rightarrow> bool" where
  "date_le a b =
     (year a < year b \<or>
      (year a = year b \<and> (month a < month b \<or> (month a = month b \<and> day a \<le> day b))))"

text \<open>\<^verbatim>\<open>strftime("%m-%d-%Y")\<close> and the ISO form in which pandas writes a timestamp.\<close>

definition strftime_mdY :: "date \<Rightarrow> string" where
  "strftime_mdY d = pad 2 (month d) @ ''-'' @ pad 2 (day d) @ ''-'' @ pad 4 (year d)"

definition isoformat :: "date \<Rightarrow> string" where
  "isoformat d = pad 4 (year d) @ ''-'' @ pad 2 (month d) @ ''-'' @ pad 2 (day d)"

text \<open>
  A cell of a DataFrame: text, a timestamp (after \<^verbatim>\<open>pd.to_datetime\<close>) or the
  missing value (\<^verbatim>\<open>NaN\<close>, \<^verbatim>\<open>NaT\<close>).
\<close>

datatype cell = Str string | Date date | NaN

text \<open>How an f-string prints a cell.\<close>

fun str_cell :: "cell \<Rightarrow> string" where
  "str_cell (Str s) = s"
| "str_cell (Date d) = isoformat d @ '' 00:00:00''"
| "str_cell NaN = ''nan''"

text \<open>
  A DataFrame with the default index \<open>0 ..< nrows\<close>: its named columns in order, each
  holding one cell per row.
\<close>

record table =
  nrows :: nat
  columns :: "(string \<times> cell list) list"

definition names :: "table \<Rightarrow> string list" where
  "names t = map fst (columns t)"

definition wf_table :: "table \<Rightarrow> bool" where
  "wf_table t = (distinct (names t) \<and> list_all (\<lambda>(c, xs). length xs = nrows t) (columns t))"

definition cell_at :: "table \<Rightarrow> nat \<Rightarrow> string \<Rightarrow> cell option" where
  "cell_at t i c =
     (case map_of (columns t) c of
        None \<Rightarrow> None
      | Some xs \<Rightarrow> if i < length xs then Some (xs ! i) else None)"

text \<open>\<^verbatim>\<open>data[c] = v\<close> for a scalar \<open>v\<close>: fills the column, appending it when new.\<close>

definition set_column :: "table \<Rightarrow> string \<Rightarrow> cell \<Rightarrow> table" where
  "set_column t c v =
     (if c \<in> set (names t)
      then t\<lparr>columns := map (\<lambda>(k, xs). if k = c then (k, replicate (nrows t) v) else (k, xs)) (columns t)\<rparr>
      else t\<lparr>columns := columns t @ [(c, replicate (nrows t) v)]\<rparr>)"

text \<open>\<^verbatim>\<open>data.at[i, c] = v\<close>: sets one cell; a new column is appended, missing in
  every other row.\<close>

definition set_at :: "table \<Rightarrow> nat \<Rightarrow> string \<Rightarrow> cell \<Rightarrow> table" where
  "set_at t i c v =
     (if c \<in> set (names t)
      then t\<lparr>columns := map (\<lambda>(k, xs). if k = c then (k, xs[i := v]) else (k, xs)) (columns t)\<rparr>
      else t\<lparr>columns := columns t @ [(c, (replicate (nrows t) NaN)[i := v])]\<rparr>)"

text \<open>\<^verbatim>\<open>data.rename(columns={old: new})\<close>\<close>

definition rename :: "table \<Rightarrow> string \<Rightarrow> string \<Rightarrow> table" where
  "rename t old new = t\<lparr>columns := map (\<lambda>(k, xs). (if k = old then new else k, xs)) (columns t)\<rparr>"

datatype exn =
    KeyError string
  | ValueError string
  | OSError string
  | AttributeError string

text \<open>\<^verbatim>\<open>data[keys]\<close> for a list of labels: every column carrying each label, in the
  order of the labels; a label that no column carries raises.\<close>

definition select :: "table \<Rightarrow> string list \<Rightarrow> exn + table" where
  "select t keys =
     (case filter (\<lambda>k. k \<notin> set (names t)) keys of
        k # _ \<Rightarrow> Inl (KeyError k)
      | [] \<Rightarrow> Inr (t\<lparr>columns := concat (map (\<lambda>k. filter (\<lambda>(k', xs). k' = k) (columns t)) keys)\<rparr>))"

text \<open>\<^verbatim>\<open>data[mask]\<close>: the rows at which the mask holds, in order.\<close>

definition keep_rows :: "table \<Rightarrow> bool list \<Rightarrow> table" where
  "keep_rows t keep =
     \<lparr>nrows = length (filter id keep),
      columns = map (\<lambda>(k, xs). (k, map fst (filter snd (zip xs keep)))) (columns t)\<rparr>"

text \<open>\<^verbatim>\<open>data.empty\<close>: no rows or no columns.\<close>

definition is_empty :: "table \<Rightarrow> bool" where
  "is_empty t = (nrows t = 0 \<or> columns t = [])"

text \<open>\<^verbatim>\<open>pd.DataFrame(columns=cols)\<close>\<close>

definition empty_frame :: "string list \<Rightarrow> table" where
  "empty_frame cols = \<lparr>nrows = 0, columns = map (\<lambda>c. (c, [])) cols\<rparr>"

text \<open>\<^verbatim>\<open>data[c] = data[c].astype(str)\<close> and the like: one column, cell by cell.\<close>

definition map_column :: "table \<Rightarrow> string \<Rightarrow> (cell \<Rightarrow> cell) \<Rightarrow> table" where
  "map_column t c f =
     t\<lparr>columns := map (\<lambda>(k, xs). if k = c then (k, map f xs) else (k, xs)) (columns t)\<rparr>"

text \<open>\<^verbatim>\<open>data.insert(0, c, v)\<close> for a scalar \<open>v\<close> and a new label \<open>c\<close>.\<close>

definition insert_first :: "table \<Rightarrow> string \<Rightarrow> cell \<Rightarrow> table" where
  "insert_first t c v = t\<lparr>columns := (c, replicate (nrows t) v) # columns t\<rparr>"

text \<open>\<^verbatim>\<open>pd.concat([a, b], ignore_index=True)\<close>: the rows of \<open>a\<close>, then those of
  \<open>b\<close>, aligned by label; the labels of \<open>a\<close> first, then the new ones of \<open>b\<close>.\<close>

definition concat_tables :: "table \<Rightarrow> table \<Rightarrow> table" where
  "concat_tables a b =
     \<lparr>nrows = nrows a + nrows b,
      columns =
        map (\<lambda>(k, xs).
               (k, xs @ (case map_of (columns b) k of
                           None \<Rightarrow> replicate (nrows b) NaN
                         | Some ys \<Rightarrow> ys)))
            (columns a) @
        map (\<lambda>(k, ys). (k, replicate (nrows a) NaN @ ys))
            (filter (\<lambda>(k, ys). k \<notin> set (names a)) (columns b))\<rparr>"

text \<open>One row as \<^verbatim>\<open>iterrows\<close> yields it, \<^verbatim>\<open>row[c]\<close> and \<^verbatim>\<open>row.get(c, default)\<close>.\<close>

type_synonym row = "(string \<times> cell) list"

definition get_row :: "table \<Rightarrow> nat \<Rightarrow> row" where
  "get_row t i = map (\<lambda>(k, xs). (k, xs ! i)) (columns t)"

definition iterrows :: "table \<Rightarrow> (nat \<times> row) list" where
  "iterrows t = map (\<lambda>i. (i, get_row t i)) [0 ..< nrows t]"

definition row_get :: "row \<Rightarrow> string \<Rightarrow> cell \<Rightarrow> cell" where
  "row_get r c dflt = (case map_of r c of None \<Rightarrow> dflt | Some v \<Rightarrow> v)"

section \<open>The outside world and the run's effects\<close>

fun str_exn :: "exn \<Rightarrow> string" where
  "str_exn (KeyError m) = m"
| "str_exn (ValueError m) = m"
| "str_exn (OSError m) = m"
| "str_exn (AttributeError m) = m"

datatype level = INFO | WARNING | ERROR | CONSOLE

datatype artifact = Csv table | Pdf "string list"

text \<open>
  What a run does to the outside: the messages it logs (to \<^verbatim>\<open>logging\<close> or, at level
  \<open>CONSOLE\<close>, to the form's console), the prompts it sends with the answer of each
  query function, and the files it writes.
\<close>

record world =
  logged :: "(level \<times> string) list"
  calls :: "(string \<times> string option) list"
  files :: "(string \<times> artifact) list"

definition emit :: "level \<Rightarrow> string \<Rightarrow> world \<Rightarrow> world" where
  "emit l m w = w\<lparr>logged := logged w @ [(l, m)]\<rparr>"

text \<open>One line of the Ollama reply stream, after \<^verbatim>\<open>json.loads\<close>: blank, not JSON, or
  an object with or without a \<^verbatim>\<open>response\<close> field.\<close>

datatype stream_line = Blank | NotJson | Message "string option"

datatype ollama_result = OllamaRequestException string | Stream "stream_line list"

text \<open>The Gemini reply: the \<^verbatim>\<open>content\<close> of the first candidate, when there is one.\<close>

datatype gemini_result = GeminiRequestException string | Candidate "string option"

text \<open>
  What \<^verbatim>\<open>os.listdir\<close>, \<^verbatim>\<open>os.path.isdir\<close> and \<^verbatim>\<open>os.path.isfile\<close> find under the root
  directory: for each name, whether it is a directory and, if so, its \<^verbatim>\<open>cdnotes.csv\<close>
  (its records in order, or the exception that reading it raises) and its
  \<^verbatim>\<open>wfboxfile.txt\<close>, when they exist.
\<close>

datatype note_file = Unreadable string | Lines "string list"

datatype wfbox_file = WfUnreadable string | WfText string

datatype dir_entry = NotDir | Dir "note_file option" "wfbox_file option"

text \<open>
  What the libraries and services answer: the listing of a directory, the CSV files on
  disk as \<^verbatim>\<open>pd.read_csv\<close> reads them, which records of a note file the parser of
  \<^verbatim>\<open>pd.read_csv(header=None, names=["Record Date", "Note"], on_bad_lines="skip")\<close> drops
  as bad and which two cells it makes of each record it keeps, which writes fail, what
  the two endpoints return for the query of each row, and which texts the date parsers
  accept.
\<close>

record env =
  listdir :: "string \<Rightarrow> (string \<times> dir_entry) list option"
  bad_line :: "string \<Rightarrow> bool"
  line_cells :: "string \<Rightarrow> cell \<times> cell"
  disk :: "string \<Rightarrow> table option"
  write_fails :: "string \<Rightarrow> bool"
  makedirs_fails :: "string \<Rightarrow> bool"
  ollama_post :: "nat \<Rightarrow> string \<Rightarrow> ollama_result"
  gemini_post :: "nat \<Rightarrow> string \<Rightarrow> gemini_result"
  dateutil_parse :: "string \<Rightarrow> date option"
  strptime :: "string \<Rightarrow> string \<Rightarrow> date option"
  to_datetime :: "string \<Rightarrow> cell \<Rightarrow> date option"

text \<open>A \<^verbatim>\<open>for\<close> loop whose body may raise: the first exception ends it.\<close>

fun for_each ::
  "('a \<Rightarrow> 's \<Rightarrow> world \<Rightarrow> (exn + 's) \<times> world) \<Rightarrow> 'a list \<Rightarrow> 's \<Rightarrow> world \<Rightarrow> (exn + 's) \<times> world"
where
  "for_each body [] s w = (Inr s, w)"
| "for_each body (x # xs) s w =
     (case body x s w of
        (Inl e, w') \<Rightarrow> (Inl e, w')
      | (Inr s', w') \<Rightarrow> for_each body xs s' w')"

text \<open>\<^verbatim>\<open>str(n)\<close>\<close>

function str_nat :: "nat \<Rightarrow> string" where
  "str_nat n = (if n < 10 then [digit_char n] else str_nat (n div 10) @ [digit_char n])"
  by pat_completeness auto
termination
  by (relation "measure id") auto

declare str_nat.simps [simp del]

text \<open>\<^verbatim>\<open>pd.read_csv(path)\<close>: the file as last written by the run, else the one on disk.\<close>

definition render_cell :: "cell \<Rightarrow> cell" where
  "render_cell v = (case v of Date d \<Rightarrow> Str (isoformat d) | _ \<Rightarrow> v)"

definition render :: "table \<Rightarrow> table" where
  "render t = t\<lparr>columns := map (\<lambda>(k, xs). (k, map render_cell xs)) (columns t)\<rparr>"

fun last_csv :: "(string \<times> artifact) list \<Rightarrow> string \<Rightarrow> table option" where
  "last_csv [] path = None"
| "last_csv ((p, a) # fs) path =
     (case last_csv fs path of
        Some t \<Rightarrow> Some t
      | None \<Rightarrow> (case a of Csv t \<Rightarrow> if p = path then Some t else None | Pdf _ \<Rightarrow> None))"

definition read_csv :: "env \<Rightarrow> string \<Rightarrow> world \<Rightarrow> (exn + table) \<times> world" where
  "read_csv e path w =
     (case last_csv (files w) path of
        Some t \<Rightarrow> (Inr t, w)
      | None \<Rightarrow>
          (case disk e path of
             Some t \<Rightarrow> (Inr t, w)
           | None \<Rightarrow> (Inl (OSError path), w)))"

text \<open>\<^verbatim>\<open>data.to_csv(path, index=False)\<close>\<close>

definition to_csv :: "env \<Rightarrow> table \<Rightarrow> string \<Rightarrow> world \<Rightarrow> (exn + unit) \<times> world" where
  "to_csv e t path w =
     (if write_fails e path then (Inl (OSError path), w)
      else (Inr (), w\<lparr>files := files w @ [(path, Csv (render t))]\<rparr>))"

section \<open>The queries (\<^verbatim>\<open>query_ollama\<close>, \<^verbatim>\<open>query_gemini\<close>)\<close>

definition note_call :: "string \<Rightarrow> string option \<Rightarrow> world \<Rightarrow> world" where
  "note_call prompt r w = w\<lparr>calls := calls w @ [(prompt, r)]\<rparr>"

fun piece :: "stream_line \<Rightarrow> string" where
  "piece Blank = []"
| "piece NotJson = []"
| "piece (Message None) = []"
| "piece (Message (Some r)) = r"

text \<open>
  \<^verbatim>\<open>query_ollama\<close> (main.py): the \<^verbatim>\<open>response\<close> fields of the stream's JSON lines,
  concatenated and stripped; \<^verbatim>\<open>None\<close> after a \<^verbatim>\<open>RequestException\<close>. The endpoint and the
  model are part of the environment; the row's index tells the queries apart.
\<close>

definition query_ollama :: "env \<Rightarrow> nat \<Rightarrow> string \<Rightarrow> world \<Rightarrow> string option \<times> world" where
  "query_ollama e index prompt w =
     (case ollama_post e index prompt of
        OllamaRequestException m \<Rightarrow>
          (None, note_call prompt None (emit ERROR (''An error occurred: '' @ m) w))
      | Stream ls \<Rightarrow>
          (let full_response = concat (map piece ls)
           in (Some (strip full_response), note_call prompt (Some (strip full_response)) w)))"

text \<open>\<^verbatim>\<open>query_gemini\<close> (gemini_process.py):
  \<^verbatim>\<open>result.get("candidates", [{}])[0].get("content", "").strip()\<close>.\<close>

definition query_gemini :: "env \<Rightarrow> nat \<Rightarrow> string \<Rightarrow> world \<Rightarrow> string option \<times> world" where
  "query_gemini e index prompt w =
     (case gemini_post e index prompt of
        GeminiRequestException m \<Rightarrow>
          (None, note_call prompt None (emit ERROR (''Error querying Gemini: '' @ m) w))
      | Candidate c \<Rightarrow>
          (let content = (case c of None \<Rightarrow> [] | Some s \<Rightarrow> s)
           in (Some (strip content), note_call prompt (Some (strip content)) w)))"

section \<open>The acknowledgment document (\<^verbatim>\<open>generate_pdf\<close>)\<close>

definition acknowledgment :: string where
  "acknowledgment =
     ''I, the undersigned employee, acknowledge receipt of this notice regarding the '' @
     ''violation of the clean desk policy. I understand the nature of the failure outlined '' @
     ''above and agree to take immediate corrective actions to ensure compliance in the future.''"

definition pdf_text :: "cell \<Rightarrow> cell \<Rightarrow> cell \<Rightarrow> string \<Rightarrow> string list" where
  "pdf_text employee_name record_date notes ai_response =
     [''Employee Acknowledgment of Desk Policy Violation'',
      ''Employee Name: '' @ str_cell employee_name,
      ''Record Date: '' @ str_cell record_date,
      ''Notes: '' @ str_cell notes,
      ''AI Response: '' @ ai_response,
      acknowledgment,
      ''Signature: ___________________________'',
      ''Date: ______________________________'']"

text \<open>\<^verbatim>\<open>os.path.join(output_dir, file_name)\<close> for a relative file name.\<close>

definition path_join :: "string \<Rightarrow> string \<Rightarrow> string" where
  "path_join dir file_name = dir @ ''/'' @ file_name"

text \<open>\<^verbatim>\<open>f"{formatted_date}-{employee_name.replace(' ', '_')}-CD.PDF"\<close>\<close>

definition pdf_file_name :: "string \<Rightarrow> string \<Rightarrow> string" where
  "pdf_file_name formatted_date employee_name =
     formatted_date @ ''-'' @ replace_space employee_name @ ''-CD.PDF''"

text \<open>
  The body that \<^verbatim>\<open>generate_pdf\<close> has in main.py and in gemini_process.py, given the date
  parser of the file (\<open>None\<close> where the parse raises an exception that the
  \<^verbatim>\<open>try\<close> catches). The directory is made first; the date is formatted, with a warning
  when it cannot be; \<^verbatim>\<open>replace\<close> raises on a name that is not text; the write may
  raise.
\<close>

definition generate_pdf_with ::
  "(cell \<Rightarrow> date option) \<Rightarrow> env \<Rightarrow> cell \<Rightarrow> cell \<Rightarrow> cell \<Rightarrow> string \<Rightarrow> string \<Rightarrow> world
     \<Rightarrow> (exn + unit) \<times> world"
where
  "generate_pdf_with parse e employee_name record_date notes ai_response output_dir w =
     (if makedirs_fails e output_dir then (Inl (OSError output_dir), w)
      else
        let formatted_date =
              (case parse record_date of Some d \<Rightarrow> strftime_mdY d | None \<Rightarrow> ''Unknown_Date'');
            w1 =
              (case parse record_date of
                 Some d \<Rightarrow> w
               | None \<Rightarrow>
                   emit WARNING
                     (''Invalid or missing date for '' @ str_cell employee_name @
                      '', using 'Unknown_Date'. Original value: '' @ str_cell record_date) w)
        in
          (case employee_name of
             Str name \<Rightarrow>
               (let file_name = pdf_file_name formatted_date name;
                    pdf_path = path_join output_dir file_name
                in if write_fails e pdf_path then (Inl (OSError pdf_path), w1)
                   else
                     (Inr (),
                      emit INFO (''PDF generated: '' @ pdf_path)
                        (w1\<lparr>files := files w1 @
                           [(pdf_path, Pdf (pdf_text employee_name record_date notes ai_response))]\<rparr>)))
           | _ \<Rightarrow> (Inl (AttributeError ''replace''), w1)))"

text \<open>main.py: \<^verbatim>\<open>dateutil.parser.parse(record_date)\<close>, any exception caught.\<close>

definition generate_pdf ::
  "env \<Rightarrow> cell \<Rightarrow> cell \<Rightarrow> cell \<Rightarrow> string \<Rightarrow> string \<Rightarrow> world \<Rightarrow> (exn + unit) \<times> world"
where
  "generate_pdf e =
     generate_pdf_with (\<lambda>v. case v of Str s \<Rightarrow> dateutil_parse e s | _ \<Rightarrow> None) e"

text \<open>gemini_process.py: \<^verbatim>\<open>datetime.strptime(record_date, "%Y-%m-%d")\<close>, with
  \<^verbatim>\<open>ValueError\<close> and \<^verbatim>\<open>TypeError\<close> caught.\<close>

definition generate_pdf_gemini ::
  "env \<Rightarrow> cell \<Rightarrow> cell \<Rightarrow> cell \<Rightarrow> string \<Rightarrow> string \<Rightarrow> world \<Rightarrow> (exn + unit) \<times> world"
where
  "generate_pdf_gemini e =
     generate_pdf_with (\<lambda>v. case v of Str s \<Rightarrow> strptime e ''%Y-%m-%d'' s | _ \<Rightarrow> None) e"

section \<open>Classification (\<^verbatim>\<open>process_csv_for_pass_fail_and_generate_pdfs\<close>)\<close>

definition prompt_of :: "cell \<Rightarrow> string" where
  "prompt_of record =
     ''This is a strict Clean Desk report. Anything found on the desk is considered a fail, except when '' @
     ''the desk is explicitly described as 'Desk clean - meets compliance', which should be marked as a pass. '' @
     ''Determine if the following record is a 'Pass' or 'Fail': '' @ str_cell record"

text \<open>Python's truth value of the query's result: neither \<^verbatim>\<open>None\<close> nor empty.\<close>

fun truthy :: "string option \<Rightarrow> bool" where
  "truthy None = False"
| "truthy (Some s) = (s \<noteq> [])"

fun text_of :: "string option \<Rightarrow> string" where
  "text_of None = []"
| "text_of (Some s) = s"

subsection \<open>main.py\<close>

text \<open>The body of the loop over \<^verbatim>\<open>data.iterrows()\<close>.\<close>

definition process_row ::
  "env \<Rightarrow> string \<Rightarrow> string \<Rightarrow> nat \<times> row \<Rightarrow> table \<Rightarrow> world \<Rightarrow> (exn + table) \<times> world"
where
  "process_row e analysis_column pdf_output_dir ir data w =
     (case ir of (index, row) \<Rightarrow>
      (case map_of row analysis_column of
         None \<Rightarrow> (Inl (KeyError analysis_column), w)
       | Some record \<Rightarrow>
          (let prompt = prompt_of record;
               w1 = emit CONSOLE (''Querying LLM for row '' @ str_nat (index + 1) @ ''...'')
                      (emit INFO (''Querying LLM for row '' @ str_nat (index + 1) @ '': '' @ prompt) w)
           in (case query_ollama e index prompt w1 of (ai_response, w2) \<Rightarrow>
               if truthy ai_response then
                 (let pass_fail = pass_fail_of (text_of ai_response);
                      data1 = set_at data index ''AI_Response'' (Str (strip (text_of ai_response)));
                      data2 = set_at data1 index ''AI_P_F'' (Str pass_fail);
                      finish = (\<lambda>w3.
                        (Inr data2,
                         emit CONSOLE (''Response for row '' @ str_nat (index + 1) @ '': '' @ pass_fail)
                           (emit INFO
                              (''Response for row '' @ str_nat (index + 1) @ '': '' @ text_of ai_response @
                               '' (Determined: '' @ pass_fail @ '')'') w3)))
                  in if pass_fail = ''FAILED'' then
                       (case generate_pdf e
                               (row_get row ''Employee Name'' (Str ''Unknown''))
                               (row_get row ''Record Date'' (Str ''Unknown''))
                               (row_get row ''Note'' (Str ''No Notes''))
                               (strip (text_of ai_response)) pdf_output_dir w2 of
                          (Inl x, w3) \<Rightarrow> (Inl x, w3)
                        | (Inr _, w3) \<Rightarrow> finish w3)
                     else finish w2)
               else
                 (let data1 = set_at data index ''AI_Response'' (Str ''Error or No Response'');
                      data2 = set_at data1 index ''AI_P_F'' (Str ''UNKNOWN'')
                  in (Inr data2,
                      emit CONSOLE (''No valid response for row '' @ str_nat (index + 1))
                        (emit WARNING (''No valid response for row '' @ str_nat (index + 1)) w2)))))))"

definition classify_rows ::
  "env \<Rightarrow> string \<Rightarrow> string \<Rightarrow> table \<Rightarrow> world \<Rightarrow> (exn + table) \<times> world"
where
  "classify_rows e analysis_column pdf_output_dir data w =
     for_each (process_row e analysis_column pdf_output_dir) (iterrows data) data w"

subsection \<open>gemini_process.py\<close>

definition process_row_gemini ::
  "env \<Rightarrow> string \<Rightarrow> string \<Rightarrow> bool \<Rightarrow> nat \<times> row \<Rightarrow> table \<Rightarrow> world \<Rightarrow> (exn + table) \<times> world"
where
  "process_row_gemini e analysis_column pdf_output_dir generate_pdfs ir data w =
     (case ir of (index, row) \<Rightarrow>
      (case map_of row analysis_column of
         None \<Rightarrow> (Inl (KeyError analysis_column), w)
       | Some record \<Rightarrow>
          (let prompt = prompt_of record;
               w1 = emit CONSOLE
                      (''Querying Gemini for record '' @ str_nat (index + 1) @ '' out of '' @
                       str_nat (nrows data) @ ''...'')
                      (emit INFO (''Querying Gemini for row '' @ str_nat (index + 1) @ '': '' @ prompt) w)
           in (case query_gemini e index prompt w1 of (ai_response, w2) \<Rightarrow>
               if truthy ai_response then
                 (let pass_fail = pass_fail_of (text_of ai_response);
                      compliant = compliant_of (text_of ai_response);
                      data1 = set_at data index ''AI_Response'' (Str (strip (text_of ai_response)));
                      data2 = set_at data1 index ''AI_P_F'' (Str pass_fail);
                      data3 = set_at data2 index ''Compliant'' (Str compliant);
                      finish = (\<lambda>w3.
                        (Inr data3,
                         emit CONSOLE
                           (''Response for record '' @ str_nat (index + 1) @ '': '' @ text_of ai_response @
                            '' (Determined: '' @ pass_fail @ '')'') w3))
                  in if pass_fail = ''FAILED'' \<and> generate_pdfs then
                       (case generate_pdf_gemini e
                               (row_get row ''Employee Name'' (Str ''Unknown''))
                               (row_get row ''Record Date'' (Str ''Unknown''))
                               (row_get row ''Note'' (Str ''No Notes''))
                               (strip (text_of ai_response)) pdf_output_dir w2 of
                          (Inl x, w3) \<Rightarrow> (Inl x, w3)
                        | (Inr _, w3) \<Rightarrow> finish w3)
                     else finish w2)
               else
                 (let data1 = set_at data index ''AI_Response'' (Str ''Error or No Response'');
                      data2 = set_at data1 index ''AI_P_F'' (Str ''UNKNOWN'');
                      data3 = set_at data2 index ''Compliant'' (Str ''UNKNOWN'')
                  in (Inr data3,
                      emit CONSOLE (''No valid response for record '' @ str_nat (index + 1)) w2))))))"

definition classify_rows_gemini ::
  "env \<Rightarrow> string \<Rightarrow> string \<Rightarrow> bool \<Rightarrow> table \<Rightarrow> world \<Rightarrow> (exn + table) \<times> world"
where
  "classify_rows_gemini e analysis_column pdf_output_dir generate_pdfs data w =
     for_each (process_row_gemini e analysis_column pdf_output_dir generate_pdfs)
       (iterrows data) data w"

text \<open>How the rows of a finished loop are read: the text stored as the response of a
  query's result.\<close>

definition response_text :: "string option \<Rightarrow> string" where
  "response_text r = (if truthy r then strip (text_of r) else ''Error or No Response'')"

subsection \<open>The reports\<close>

fun join :: "string \<Rightarrow> string list \<Rightarrow> string" where
  "join sep [] = []"
| "join sep [x] = x"
| "join sep (x # y # ys) = x @ sep @ join sep (y # ys)"

text \<open>\<^verbatim>\<open>list(data.columns)\<close> in an f-string.\<close>

definition repr_list :: "string list \<Rightarrow> string" where
  "repr_list xs = ''['' @ join '', '' (map (\<lambda>x. [CHR 0x27] @ x @ [CHR 0x27]) xs) @ '']''"

text \<open>main.py: the whole of \<^verbatim>\<open>process_csv_for_pass_fail_and_generate_pdfs\<close>.\<close>

definition process_csv_for_pass_fail_and_generate_pdfs ::
  "env \<Rightarrow> string \<Rightarrow> string \<Rightarrow> string \<Rightarrow> string \<Rightarrow> world \<Rightarrow> (exn + unit) \<times> world"
where
  "process_csv_for_pass_fail_and_generate_pdfs e csv_path analysis_column output_path pdf_output_dir w =
     (case read_csv e csv_path w of
        (Inl x, w0) \<Rightarrow> (Inl x, w0)
      | (Inr data, w0) \<Rightarrow>
         (let w1 = emit CONSOLE (''Available columns in the CSV: '' @ repr_list (names data))
                     (emit INFO (''Available columns in the CSV: '' @ repr_list (names data)) w0)
          in if analysis_column \<notin> set (names data)
             then (Inl (KeyError (''The specified column '' @ [CHR 0x27] @ analysis_column @
                                 [CHR 0x27] @ '' does not exist in the CSV.'')), w1)
             else
               (let data1 = (if ''AI_P_F'' \<notin> set (names data) then set_column data ''AI_P_F'' (Str [])
                             else data);
                    data2 = (if ''AI_Response'' \<notin> set (names data1)
                             then set_column data1 ''AI_Response'' (Str []) else data1);
                    w2 = emit CONSOLE (''Processing '' @ str_nat (nrows data2) @ '' records...'') w1
                in (case classify_rows e analysis_column pdf_output_dir data2 w2 of
                      (Inl x, w3) \<Rightarrow> (Inl x, w3)
                    | (Inr data3, w3) \<Rightarrow>
                       (let column_order =
                              [''AI_P_F'', ''AI_Response''] @
                              filter (\<lambda>col. col \<notin> set [''AI_P_F'', ''AI_Response'']) (names data3)
                        in (case select data3 column_order of
                              Inl x \<Rightarrow> (Inl x, w3)
                            | Inr data4 \<Rightarrow>
                               (case to_csv e data4 output_path w3 of
                                  (Inl x, w4) \<Rightarrow> (Inl x, w4)
                                | (Inr _, w4) \<Rightarrow>
                                   (Inr (),
                                    emit CONSOLE (''Results saved to '' @ output_path)
                                      (emit INFO (''Results saved to '' @ output_path) w4)))))))))"

text \<open>gemini_process.py: the part of the function after the loop. The table is saved twice,
  each time inside a \<^verbatim>\<open>try\<close> whose handler prints to the console.\<close>

definition required_columns :: "string list" where
  "required_columns =
     [''Employee Name'', ''Last Clean Desk Date'', ''Location'', ''Compliant'', ''Note'', ''AI_Response'']"

text \<open>\<^verbatim>\<open>for column in required_columns: if column not in data.columns: data[column] = ...\<close>\<close>

definition fill_missing :: "(string \<Rightarrow> cell) \<Rightarrow> string list \<Rightarrow> table \<Rightarrow> table" where
  "fill_missing placeholder cols data =
     foldl (\<lambda>d column. if column \<notin> set (names d) then set_column d column (placeholder column) else d)
       data cols"

definition save_report :: "env \<Rightarrow> table \<Rightarrow> string \<Rightarrow> string \<Rightarrow> world \<Rightarrow> world" where
  "save_report e data output_path failure w =
     (case to_csv e data output_path w of
        (Inl x, w1) \<Rightarrow> emit CONSOLE (failure @ str_exn x) w1
      | (Inr _, w1) \<Rightarrow>
          emit CONSOLE (''Results saved to '' @ output_path)
            (emit INFO (''Results saved to '' @ output_path) w1))"

definition report_gemini :: "env \<Rightarrow> table \<Rightarrow> string \<Rightarrow> world \<Rightarrow> (exn + table) \<times> world" where
  "report_gemini e data output_path w =
     (let data1 = rename data ''Record Date'' ''Last Clean Desk Date'';
          data2 = fill_missing (\<lambda>column. Str ''Unknown'') required_columns data1
      in (case select data2 required_columns of
            Inl x \<Rightarrow> (Inl x, w)
          | Inr data3 \<Rightarrow>
             (let w1 = save_report e data3 output_path ''Error saving the file: '' w;
                  data4 = (if ''Record Date'' \<in> set (names data3)
                           then rename data3 ''Record Date'' ''Last Clean Desk Date'' else data3);
                  data5 = fill_missing
                            (\<lambda>column. if column \<in> set [''Location'', ''Compliant'']
                                       then Str ''Unknown'' else Str [])
                            required_columns data4
              in (case select data5 required_columns of
                    Inl x \<Rightarrow> (Inl x, w1)
                  | Inr data6 \<Rightarrow>
                      (Inr data6,
                       save_report e data6 output_path ''Error saving the processed file: '' w1)))))"

definition process_csv_for_pass_fail_and_generate_pdfs_gemini ::
  "env \<Rightarrow> string \<Rightarrow> string \<Rightarrow> string \<Rightarrow> string \<Rightarrow> bool \<Rightarrow> world \<Rightarrow> (exn + unit) \<times> world"
where
  "process_csv_for_pass_fail_and_generate_pdfs_gemini e csv_path analysis_column output_path
       pdf_output_dir generate_pdfs w =
     (case read_csv e csv_path w of
        (Inl x, w0) \<Rightarrow> (Inl x, w0)
      | (Inr data, w0) \<Rightarrow>
         (let w1 = emit CONSOLE (''Available columns in the CSV: '' @ repr_list (names data))
                     (emit INFO (''Available columns in the CSV: '' @ repr_list (names data)) w0)
          in if analysis_column \<notin> set (names data)
             then (Inl (KeyError (''The specified column '' @ [CHR 0x27] @ analysis_column @
                                 [CHR 0x27] @ '' does not exist in the CSV.'')), w1)
             else
               (let data1 = (if ''AI_P_F'' \<notin> set (names data) then set_column data ''AI_P_F'' (Str [])
                             else data);
                    data2 = (if ''AI_Response'' \<notin> set (names data1)
                             then set_column data1 ''AI_Response'' (Str []) else data1);
                    w2 = emit CONSOLE (''Processing '' @ str_nat (nrows data2) @ '' records...'') w1
                in (case classify_rows_gemini e analysis_column pdf_output_dir generate_pdfs data2 w2 of
                      (Inl x, w3) \<Rightarrow> (Inl x, w3)
                    | (Inr data3, w3) \<Rightarrow>
                       (case report_gemini e data3 output_path w3 of
                          (Inl x, w4) \<Rightarrow> (Inl x, w4)
                        | (Inr _, w4) \<Rightarrow> (Inr (), w4))))))"

section \<open>The date filter and the run (\<^verbatim>\<open>run_ai_on_csv\<close>)\<close>

text \<open>\<^verbatim>\<open>data["Record Date"] = pd.to_datetime(data["Record Date"], format="%m-%d-%Y",
  errors="coerce")\<close>: a cell that does not parse becomes the missing value.\<close>

definition coerce_dates :: "env \<Rightarrow> table \<Rightarrow> exn + table" where
  "coerce_dates e data =
     (if ''Record Date'' \<notin> set (names data) then Inl (KeyError ''Record Date'')
      else Inr (data\<lparr>columns :=
        map (\<lambda>(k, xs).
               if k = ''Record Date''
               then (k, map (\<lambda>v. case to_datetime e ''%m-%d-%Y'' v of
                                      Some d \<Rightarrow> Date d | None \<Rightarrow> NaN) xs)
               else (k, xs))
            (columns data)\<rparr>))"

text \<open>\<^verbatim>\<open>(data["Record Date"] >= start_date) & (data["Record Date"] <= end_date)\<close> at one
  cell: a comparison with the missing value is false.\<close>

fun in_range :: "date \<Rightarrow> date \<Rightarrow> cell \<Rightarrow> bool" where
  "in_range start_date end_date (Date d) = (date_le start_date d \<and> date_le d end_date)"
| "in_range start_date end_date v = False"

definition column_cells :: "table \<Rightarrow> string \<Rightarrow> cell list" where
  "column_cells t c = (case map_of (columns t) c of None \<Rightarrow> [] | Some xs \<Rightarrow> xs)"

text \<open>The lines of \<^verbatim>\<open>run_ai_on_csv\<close> between reading the table and testing whether the
  filtered table is empty.\<close>

definition filter_by_date :: "env \<Rightarrow> table \<Rightarrow> string \<Rightarrow> string \<Rightarrow> exn + table" where
  "filter_by_date e data start_date end_date =
     (case coerce_dates e data of
        Inl x \<Rightarrow> Inl x
      | Inr data1 \<Rightarrow>
         (case strptime e ''%m-%d-%Y'' start_date of
            None \<Rightarrow> Inl (ValueError start_date)
          | Some s \<Rightarrow>
             (case strptime e ''%m-%d-%Y'' end_date of
                None \<Rightarrow> Inl (ValueError end_date)
              | Some en \<Rightarrow>
                  Inr (keep_rows data1 (map (in_range s en) (column_cells data1 ''Record Date''))))))"

text \<open>The body of the \<^verbatim>\<open>try\<close> of \<^verbatim>\<open>run_ai_on_csv\<close>, given the classification it calls.\<close>

definition run_body ::
  "(string \<Rightarrow> world \<Rightarrow> (exn + unit) \<times> world) \<Rightarrow> env \<Rightarrow> string \<Rightarrow> string \<Rightarrow> string \<Rightarrow> world
     \<Rightarrow> (exn + unit) \<times> world"
where
  "run_body process e input_csv start_date end_date w =
     (case read_csv e input_csv w of
        (Inl x, w0) \<Rightarrow> (Inl x, w0)
      | (Inr data, w0) \<Rightarrow>
         (let w1 = emit INFO (''Loaded data from '' @ input_csv)
                     (emit CONSOLE (''Loaded data from '' @ input_csv) w0)
          in (case filter_by_date e data start_date end_date of
                Inl x \<Rightarrow> (Inl x, w1)
              | Inr filtered_data \<Rightarrow>
                  if is_empty filtered_data
                  then (Inr (),
                        emit INFO ''No records found in the specified date range.''
                          (emit CONSOLE ''No records found in the specified date range.'' w1))
                  else
                    (let w2 = emit INFO
                                (''Filtered data to '' @ str_nat (nrows filtered_data) @
                                 '' records within date range.'')
                                (emit CONSOLE
                                   (''Filtered data to '' @ str_nat (nrows filtered_data) @
                                    '' records within date range.'') w1)
                     in (case to_csv e filtered_data ''ai_processed_data.csv'' w2 of
                           (Inl x, w3) \<Rightarrow> (Inl x, w3)
                         | (Inr _, w3) \<Rightarrow> process ''ai_processed_data.csv'' w3)))))"

text \<open>\<^verbatim>\<open>except Exception as e\<close>: the message goes to the console and to the log, and the
  function returns.\<close>

definition handle_error :: "(exn + unit) \<times> world \<Rightarrow> world" where
  "handle_error r =
     (case r of
        (Inl x, w) \<Rightarrow> emit ERROR (''Error: '' @ str_exn x) (emit CONSOLE (''Error: '' @ str_exn x) w)
      | (Inr _, w) \<Rightarrow> w)"

text \<open>main.py\<close>

definition run_ai_on_csv :: "env \<Rightarrow> string \<Rightarrow> string \<Rightarrow> string \<Rightarrow> world \<Rightarrow> world" where
  "run_ai_on_csv e input_csv start_date end_date w =
     handle_error
       (run_body
          (\<lambda>filtered_csv_path.
             process_csv_for_pass_fail_and_generate_pdfs e filtered_csv_path ''Note''
               ''output_with_ai.csv'' ''pdf_reports'')
          e input_csv start_date end_date w)"

text \<open>gemini_process.py\<close>

definition run_ai_on_csv_gemini ::
  "env \<Rightarrow> string \<Rightarrow> string \<Rightarrow> string \<Rightarrow> bool \<Rightarrow> world \<Rightarrow> world"
where
  "run_ai_on_csv_gemini e input_csv start_date end_date generate_pdfs w =
     handle_error
       (run_body
          (\<lambda>filtered_csv_path.
             process_csv_for_pass_fail_and_generate_pdfs_gemini e filtered_csv_path ''Note''
               ''output_with_ai.csv'' ''pdf_reports'' generate_pdfs)
          e input_csv start_date end_date w)"

section \<open>Consolidation (\<^verbatim>\<open>consolidate_cdnotes\<close>)\<close>

text \<open>
  \<^verbatim>\<open>pd.read_csv(cdnotes_path, header=None, names=["Record Date", "Note"],
  on_bad_lines="skip")\<close> on a file that can be read: the records that the parser does not
  drop, in order, each as the two cells the parser makes of it.
\<close>

definition notes_table :: "env \<Rightarrow> string list \<Rightarrow> table" where
  "notes_table e ls =
     (let kept = map (line_cells e) (filter (\<lambda>l. \<not> bad_line e l) ls)
      in \<lparr>nrows = length kept,
          columns = [(''Record Date'', map fst kept), (''Note'', map snd kept)]\<rparr>)"

text \<open>main.py (dsa.py has the same function, printing where this one logs): the body of
  the loop over \<^verbatim>\<open>os.listdir(root_directory)\<close>.\<close>

definition consolidate_entry ::
  "env \<Rightarrow> string \<Rightarrow> string \<times> dir_entry \<Rightarrow> table \<Rightarrow> world \<Rightarrow> table \<times> world"
where
  "consolidate_entry e root_directory se consolidated_data w =
     (case se of (subfolder, entry) \<Rightarrow>
      (let subfolder_path = path_join root_directory subfolder
       in (case entry of
             NotDir \<Rightarrow>
               (consolidated_data, emit INFO (''Skipping non-directory item: '' @ subfolder_path) w)
           | Dir notes wfbox \<Rightarrow>
              (let employee_name = subfolder;
                   cdnotes_path = path_join subfolder_path ''cdnotes.csv''
               in (case notes of
                     None \<Rightarrow>
                       (consolidated_data,
                        emit WARNING (''cdnotes.csv not found in '' @ subfolder_path @ '', skipping...'') w)
                   | Some nf \<Rightarrow>
                      (let w1 = emit INFO (''Processing file: '' @ cdnotes_path) w
                       in (case nf of
                             Unreadable m \<Rightarrow>
                               (consolidated_data,
                                emit ERROR (''Error reading '' @ cdnotes_path @ '': '' @ m) w1)
                           | Lines ls \<Rightarrow>
                              (let cdnotes_data = notes_table e ls;
                                   cdnotes_data1 =
                                     map_column cdnotes_data ''Record Date'' (\<lambda>v. Str (str_cell v));
                                   cdnotes_data2 =
                                     insert_first cdnotes_data1 ''Employee Name'' (Str employee_name)
                               in (concat_tables consolidated_data cdnotes_data2,
                                   emit INFO
                                     (''Successfully processed '' @ cdnotes_path @ '', added '' @
                                      str_nat (nrows cdnotes_data2) @ '' records.'') w1)))))))))"

fun consolidate_loop ::
  "(string \<times> dir_entry \<Rightarrow> table \<Rightarrow> world \<Rightarrow> table \<times> world) \<Rightarrow> (string \<times> dir_entry) list \<Rightarrow>
     table \<Rightarrow> world \<Rightarrow> table \<times> world"
where
  "consolidate_loop body [] consolidated_data w = (consolidated_data, w)"
| "consolidate_loop body (se # rest) consolidated_data w =
     (case body se consolidated_data w of (t, w') \<Rightarrow> consolidate_loop body rest t w')"

text \<open>The end of the function: nothing is written for an empty table; a failed write is
  logged.\<close>

definition save_consolidated :: "env \<Rightarrow> table \<Rightarrow> string \<Rightarrow> world \<Rightarrow> world" where
  "save_consolidated e consolidated_data output_csv w =
     (if is_empty consolidated_data
      then emit INFO ''No data found to consolidate. No file will be generated.'' w
      else
        (case to_csv e consolidated_data output_csv w of
           (Inl x, w1) \<Rightarrow> emit ERROR (''Error saving the consolidated file: '' @ str_exn x) w1
         | (Inr _, w1) \<Rightarrow> emit INFO (''Consolidated data saved to '' @ output_csv) w1))"

definition consolidated_table :: "env \<Rightarrow> string \<Rightarrow> (string \<times> dir_entry) list \<Rightarrow> world \<Rightarrow> table \<times> world" where
  "consolidated_table e root_directory listing w =
     consolidate_loop (consolidate_entry e root_directory) listing
       (empty_frame [''Employee Name'', ''Record Date'', ''Note''])
       (emit INFO (''Starting to process the root directory: '' @ root_directory) w)"

definition consolidate_cdnotes :: "env \<Rightarrow> string \<Rightarrow> string \<Rightarrow> world \<Rightarrow> (exn + unit) \<times> world" where
  "consolidate_cdnotes e root_directory output_csv w =
     (case listdir e root_directory of
        None \<Rightarrow>
          (Inl (OSError root_directory),
           emit INFO (''Starting to process the root directory: '' @ root_directory) w)
      | Some listing \<Rightarrow>
          (case consolidated_table e root_directory listing w of
             (consolidated_data, w1) \<Rightarrow> (Inr (), save_consolidated e consolidated_data output_csv w1)))"

text \<open>gemini_process.py: the same walk, with the location read from
  \<^verbatim>\<open>wfboxfile.txt\<close> and the whole of the reading inside one \<^verbatim>\<open>try\<close>.\<close>

definition consolidate_entry_gemini ::
  "env \<Rightarrow> string \<Rightarrow> string \<times> dir_entry \<Rightarrow> table \<Rightarrow> world \<Rightarrow> table \<times> world"
where
  "consolidate_entry_gemini e root_directory se consolidated_data w =
     (case se of (subfolder, entry) \<Rightarrow>
      (let subfolder_path = path_join root_directory subfolder
       in (case entry of
             NotDir \<Rightarrow>
               (consolidated_data, emit INFO (''Skipping non-directory item: '' @ subfolder_path) w)
           | Dir notes wfbox \<Rightarrow>
              (let employee_name = subfolder;
                   cdnotes_path = path_join subfolder_path ''cdnotes.csv''
               in (case notes of
                     None \<Rightarrow>
                       (consolidated_data,
                        emit WARNING (''cdnotes.csv not found in '' @ subfolder_path @ '', skipping...'') w)
                   | Some nf \<Rightarrow>
                      (let location =
                             (case wfbox of Some (WfText s) \<Rightarrow> strip s | _ \<Rightarrow> ''Unknown Location'');
                           w0 =
                             (case wfbox of
                                Some (WfUnreadable m) \<Rightarrow>
                                  emit ERROR (''Error reading wfboxfile.txt in '' @ subfolder_path @
                                              '': '' @ m) w
                              | _ \<Rightarrow> w);
                           w1 = emit INFO (''Processing file: '' @ cdnotes_path) w0
                       in (case nf of
                             Unreadable m \<Rightarrow>
                               (consolidated_data,
                                emit ERROR (''Error reading '' @ cdnotes_path @ '': '' @ m) w1)
                           | Lines ls \<Rightarrow>
                              (let cdnotes_data = notes_table e ls;
                                   cdnotes_data1 =
                                     map_column cdnotes_data ''Record Date'' (\<lambda>v. Str (str_cell v));
                                   cdnotes_data2 =
                                     set_column cdnotes_data1 ''Employee Name'' (Str employee_name);
                                   cdnotes_data3 = set_column cdnotes_data2 ''Location'' (Str location)
                               in (concat_tables consolidated_data cdnotes_data3,
                                   emit INFO
                                     (''Successfully processed '' @ cdnotes_path @ '', added '' @
                                      str_nat (nrows cdnotes_data3) @ '' records.'') w1)))))))))"

definition consolidated_table_gemini ::
  "env \<Rightarrow> string \<Rightarrow> (string \<times> dir_entry) list \<Rightarrow> world \<Rightarrow> table \<times> world"
where
  "consolidated_table_gemini e root_directory listing w =
     consolidate_loop (consolidate_entry_gemini e root_directory) listing
       (empty_frame [''Employee Name'', ''Record Date'', ''Note'', ''Location''])
       (emit INFO (''Starting to process the root directory: '' @ root_directory) w)"

definition consolidate_cdnotes_gemini ::
  "env \<Rightarrow> string \<Rightarrow> string \<Rightarrow> world \<Rightarrow> (exn + unit) \<times> world"
where
  "consolidate_cdnotes_gemini e root_directory output_csv w =
     (case listdir e root_directory of
        None \<Rightarrow>
          (Inl (OSError root_directory),
           emit INFO (''Starting to process the root directory: '' @ root_directory) w)
      | Some listing \<Rightarrow>
          (case consolidated_table_gemini e root_directory listing w of
             (consolidated_data, w1) \<Rightarrow> (Inr (), save_consolidated e consolidated_data output_csv w1)))"

section \<open>Reading the result of a run\<close>

text \<open>Row \<open>i\<close> of the table carries the verdict and the response of the query result
  \<open>r\<close> (a prompt with the value that the query function returned).\<close>

definition row_done :: "table \<Rightarrow> nat \<Rightarrow> string \<times> string option \<Rightarrow> bool" where
  "row_done t i r =
     (cell_at t i ''AI_P_F'' = Some (Str (pass_fail_of (text_of (snd r)))) \<and>
      cell_at t i ''AI_Response'' = Some (Str (response_text (snd r))))"

definition row_done_gemini :: "table \<Rightarrow> nat \<Rightarrow> string \<times> string option \<Rightarrow> bool" where
  "row_done_gemini t i r =
     (row_done t i r \<and> cell_at t i ''Compliant'' = Some (Str (compliant_of (text_of (snd r)))))"

section \<open>An example environment\<close>

text \<open>
  A small concrete environment on which the model runs: a date parser for the two formats
  the program names (two-digit month and day, four-digit year), a note-file parser that
  takes a record with exactly one comma as good, two endpoints with fixed answers, a disk
  on which every write succeeds, and a folder tree with two employees that have notes.
\<close>

fun nat_of_digits :: "string \<Rightarrow> nat option" where
  "nat_of_digits [] = Some 0"
| "nat_of_digits (c # cs) =
     (case nat_of_digits cs of
        None \<Rightarrow> None
      | Some n \<Rightarrow>
          (let d = (of_char c :: nat)
           in if 48 \<le> d \<and> d \<le> 57 then Some ((d - 48) * 10 ^ length cs + n) else None))"

definition example_date :: "string \<Rightarrow> string \<Rightarrow> string \<Rightarrow> date option" where
  "example_date y m d =
     (case (nat_of_digits y, nat_of_digits m, nat_of_digits d) of
        (Some yy, Some mm, Some dd) \<Rightarrow>
          if length y = 4 \<and> length m = 2 \<and> length d = 2 \<and>
             1 \<le> mm \<and> mm \<le> 12 \<and> 1 \<le> dd \<and> dd \<le> 31
          then Some \<lparr>year = yy, month = mm, day = dd\<rparr>
          else None
      | _ \<Rightarrow> None)"

definition example_strptime :: "string \<Rightarrow> string \<Rightarrow> date option" where
  "example_strptime fmt s =
     (if length s = 10 \<and> s ! 2 = CHR ''-'' \<and> s ! 5 = CHR ''-'' \<and> fmt = ''%m-%d-%Y''
      then example_date (drop 6 s) (take 2 s) (take 2 (drop 3 s))
      else if length s = 10 \<and> s ! 4 = CHR ''-'' \<and> s ! 7 = CHR ''-'' \<and> fmt = ''%Y-%m-%d''
      then example_date (take 4 s) (take 2 (drop 5 s)) (drop 8 s)
      else None)"

definition example_listing :: "(string \<times> dir_entry) list" where
  "example_listing =
     [(''Acme Corp'',
       Dir (Some (Lines [''03-01-2024,pens on desk'', ''03-02-2024,clean,tidy'',
                         ''03-02-2024,Desk clean''])) None),
      (''readme.txt'', NotDir),
      (''Bolt'', Dir (Some (Lines [''03-05-2024,laptop unlocked''])) (Some (WfText '' Hall 2 ''))),
      (''Nobody'', Dir None None)]"

text \<open>A consolidated table as \<^verbatim>\<open>run_ai_on_csv\<close> reads it, and a filtered one as the
  classification reads it back.\<close>

definition example_consolidated :: table where
  "example_consolidated =
     \<lparr>nrows = 3,
      columns =
        [(''Employee Name'', [Str ''Acme Corp'', Str ''Acme Corp'', Str ''Bolt'']),
         (''Record Date'', [Str ''03-01-2024'', Str ''yesterday'', Str ''03-05-2024'']),
         (''Note'', [Str ''pens'', Str ''clean'', Str ''laptop''])]\<rparr>"

definition example_notes :: table where
  "example_notes =
     \<lparr>nrows = 2,
      columns =
        [(''Employee Name'', [Str ''Acme Corp'', Str ''Bolt'']),
         (''Record Date'', [Str ''2024-03-01'', Str ''2024-03-02'']),
         (''Note'', [Str ''pens'', Str ''clean''])]\<rparr>"

definition example_env :: env where
  "example_env =
     \<lparr>listdir = (\<lambda>d. if d = ''root'' then Some example_listing else None),
      bad_line = (\<lambda>l. length (filter (\<lambda>c. c = CHR '','') l) \<noteq> 1),
      line_cells = (\<lambda>l. (Str (takeWhile (\<lambda>c. c \<noteq> CHR '','') l),
                          Str (drop 1 (dropWhile (\<lambda>c. c \<noteq> CHR '','') l)))),
      disk = (\<lambda>p. if p = ''consolidated_cdnotes.csv'' then Some example_consolidated
                    else if p = ''notes.csv'' then Some example_notes else None),
      write_fails = (\<lambda>p. False),
      makedirs_fails = (\<lambda>p. False),
      ollama_post =
        (\<lambda>i p. if i = 0 then Stream [Message (Some ''Fail, ''), Blank, NotJson, Message (Some ''items '')]
                else if i = 1 then Stream [Message (Some ''PASS - it may fail later'')]
                else OllamaRequestException ''timed out''),
      gemini_post =
        (\<lambda>i p. if i = 0 then Candidate (Some '' Fail, items present'')
                else if i = 1 then Candidate None
                else GeminiRequestException ''timed out''),
      dateutil_parse = example_strptime ''%Y-%m-%d'',
      strptime = example_strptime,
      to_datetime = (\<lambda>fmt v. case v of Str s \<Rightarrow> example_strptime fmt s | _ \<Rightarrow> None)\<rparr>"

definition quiet :: world where
  "quiet = \<lparr>logged = [], calls = [], files = []\<rparr>"

section \<open>Tables\<close>

lemma names_set_at:
  "names (set_at t i c v) = (if c \<in> set (names t) then names t else names t @ [c])"
  by (auto simp: set_at_def names_def o_def split_def intro!: map_idI)

lemma nrows_set_at [simp]: "nrows (set_at t i c v) = nrows t"
  by (simp add: set_at_def)

lemma wf_set_at: "wf_table t \<Longrightarrow> wf_table (set_at t i c v)"
  unfolding wf_table_def names_set_at
  by (auto simp: set_at_def names_def list_all_iff split: if_splits)

lemma map_of_upd_col:
  "map_of (map (\<lambda>(k, xs). if k = c then (k, f xs) else (k, xs)) l) c' =
     (if c' = c then map_option f (map_of l c') else map_of l c')"
  by (induction l) auto

lemma cell_at_set_at_same:
  "wf_table t \<Longrightarrow> i < nrows t \<Longrightarrow> cell_at (set_at t i c v) i c = Some v"
proof -
  assume wf: "wf_table t" and i: "i < nrows t"
  show ?thesis
  proof (cases "c \<in> set (names t)")
    case True
    then obtain xs where xs: "map_of (columns t) c = Some xs"
      by (metis names_def map_of_eq_None_iff not_Some_eq set_map)
    then have "(c, xs) \<in> set (columns t)" by (rule map_of_SomeD)
    with wf have "length xs = nrows t" by (auto simp: wf_table_def list_all_iff)
    with True xs i show ?thesis
      by (simp add: cell_at_def set_at_def map_of_upd_col)
  next
    case False
    then have "map_of (columns t) c = None"
      by (simp add: names_def map_of_eq_None_iff)
    with False i show ?thesis
      by (simp add: cell_at_def set_at_def map_add_def)
  qed
qed

lemma in_names_iff: "c \<in> set (names t) \<longleftrightarrow> map_of (columns t) c \<noteq> None"
  by (simp add: names_def map_of_eq_None_iff)

lemma cell_at_set_at_other:
  "j \<noteq> i \<or> c' \<noteq> c \<Longrightarrow> cell_at t j c' = Some x \<Longrightarrow> cell_at (set_at t i c v) j c' = Some x"
  by (auto simp: cell_at_def set_at_def map_of_upd_col map_add_def in_names_iff
           split: option.splits if_splits)

lemma for_each_rows:
  assumes step: "\<And>i row t w t' w'. body (i, row) t w = (Inr t', w') \<Longrightarrow> wf_table t \<Longrightarrow> i < nrows t \<Longrightarrow>
           wf_table t' \<and> nrows t' = nrows t \<and> (\<exists>r. calls w' = calls w @ [r] \<and> Q t' i r) \<and>
           (\<forall>j c x. j \<noteq> i \<longrightarrow> cell_at t j c = Some x \<longrightarrow> cell_at t' j c = Some x)"
    and stable: "\<And>t t' i r. Q t i r \<Longrightarrow> (\<forall>c x. cell_at t i c = Some x \<longrightarrow> cell_at t' i c = Some x) \<Longrightarrow> Q t' i r"
  shows "for_each body (map (\<lambda>i. (i, f i)) ixs) t w = (Inr t', w') \<Longrightarrow> wf_table t \<Longrightarrow> distinct ixs \<Longrightarrow>
         \<forall>i\<in>set ixs. i < nrows t \<Longrightarrow>
         wf_table t' \<and> nrows t' = nrows t \<and>
         (\<exists>rs. length rs = length ixs \<and> calls w' = calls w @ rs \<and> (\<forall>k<length ixs. Q t' (ixs ! k) (rs ! k))) \<and>
         (\<forall>j c x. j \<notin> set ixs \<longrightarrow> cell_at t j c = Some x \<longrightarrow> cell_at t' j c = Some x)"
proof (induction ixs arbitrary: t w)
  case Nil
  then show ?case by simp
next
  case (Cons i ixs)
  from Cons.prems(1) obtain t1 w1 where b: "body (i, f i) t w = (Inr t1, w1)"
    and rest: "for_each body (map (\<lambda>i. (i, f i)) ixs) t1 w1 = (Inr t', w')"
    by (auto split: prod.splits sum.splits)
  from Cons.prems have i: "i < nrows t" and wf: "wf_table t" by auto
  from step[OF b wf i] obtain r where wf1: "wf_table t1" and n1: "nrows t1 = nrows t"
    and c1: "calls w1 = calls w @ [r]" and q1: "Q t1 i r"
    and keep1: "\<And>j c x. j \<noteq> i \<Longrightarrow> cell_at t j c = Some x \<Longrightarrow> cell_at t1 j c = Some x"
    by blast
  from Cons.prems have d: "distinct ixs" and ni: "i \<notin> set ixs" and b2: "\<forall>i\<in>set ixs. i < nrows t1"
    using n1 by auto
  from Cons.IH[OF rest wf1 d b2] obtain rs where wf': "wf_table t'" and n': "nrows t' = nrows t1"
    and l: "length rs = length ixs" and c': "calls w' = calls w1 @ rs"
    and q': "\<And>k. k < length ixs \<Longrightarrow> Q t' (ixs ! k) (rs ! k)"
    and keep': "\<And>j c x. j \<notin> set ixs \<Longrightarrow> cell_at t1 j c = Some x \<Longrightarrow> cell_at t' j c = Some x"
    by blast
  have qi: "Q t' i r" using stable[OF q1] keep'[OF ni] by blast
  have "\<forall>k<length (i # ixs). Q t' ((i # ixs) ! k) ((r # rs) ! k)"
    using qi q' by (auto simp: nth_Cons split: nat.splits)
  moreover have "length (r # rs) = length (i # ixs)" using l by simp
  moreover have "calls w' = calls w @ (r # rs)" using c1 c' by simp
  ultimately have ex: "\<exists>rs'. length rs' = length (i # ixs) \<and> calls w' = calls w @ rs' \<and>
      (\<forall>k<length (i # ixs). Q t' ((i # ixs) ! k) (rs' ! k))" by blast
  have "\<forall>j c x. j \<notin> set (i # ixs) \<longrightarrow> cell_at t j c = Some x \<longrightarrow> cell_at t' j c = Some x"
    using keep1 keep' by auto
  with ex wf' n' n1 show ?case by simp
qed


lemma calls_emit [simp]: "calls (emit l m w) = calls w"
  by (simp add: emit_def)

lemma files_emit [simp]: "files (emit l m w) = files w"
  by (simp add: emit_def)

lemma query_ollama_calls:
  "query_ollama e i p w = (r, w') \<Longrightarrow> calls w' = calls w @ [(p, r)] \<and> files w' = files w"
  by (auto simp: query_ollama_def note_call_def Let_def split: ollama_result.splits)

lemma query_gemini_calls:
  "query_gemini e i p w = (r, w') \<Longrightarrow> calls w' = calls w @ [(p, r)] \<and> files w' = files w"
  by (auto simp: query_gemini_def note_call_def Let_def split: gemini_result.splits)

lemma generate_pdf_with_calls:
  "generate_pdf_with parse e n d nt a dir w = (res, w') \<Longrightarrow> calls w' = calls w"
  by (auto simp: generate_pdf_with_def Let_def split: if_splits cell.splits option.splits)

lemma not_truthy_verdict:
  "\<not> truthy r \<Longrightarrow> pass_fail_of (text_of r) = ''UNKNOWN'' \<and> compliant_of (text_of r) = ''UNKNOWN''"
  by (cases r) (auto simp: pass_fail_of_def compliant_of_def lower_def)

lemma response_text_simps:
  "truthy r \<Longrightarrow> response_text r = strip (text_of r)"
  "\<not> truthy r \<Longrightarrow> response_text r = ''Error or No Response''"
  by (simp_all add: response_text_def)

lemma process_row_Inr:
  assumes "process_row e ac dir (i, row) t w = (Inr t', w')"
  shows "\<exists>p r. calls w' = calls w @ [(p, r)] \<and>
     t' = set_at (set_at t i ''AI_Response'' (Str (response_text r))) i ''AI_P_F''
            (Str (pass_fail_of (text_of r)))"
proof -
  from assms obtain rcd where rcd: "map_of row ac = Some rcd"
    by (auto simp: process_row_def split: option.splits)
  obtain r w2 where q: "query_ollama e i (prompt_of rcd)
      (emit CONSOLE (''Querying LLM for row '' @ str_nat (i + 1) @ ''...'')
         (emit INFO (''Querying LLM for row '' @ str_nat (i + 1) @ '': '' @ prompt_of rcd) w)) = (r, w2)"
    by fastforce
  have c2: "calls w2 = calls w @ [(prompt_of rcd, r)]"
    using query_ollama_calls[OF q] by simp
  have "calls w' = calls w2 \<and>
     t' = set_at (set_at t i ''AI_Response'' (Str (response_text r))) i ''AI_P_F''
            (Str (pass_fail_of (text_of r)))"
  proof (cases "truthy r")
    case True
    with assms rcd q show ?thesis
      unfolding process_row_def generate_pdf_def
      by (auto simp: Let_def response_text_simps dest!: generate_pdf_with_calls
               split: if_splits prod.splits sum.splits)
  next
    case False
    with assms rcd q show ?thesis
      unfolding process_row_def
      by (auto simp: Let_def response_text_simps not_truthy_verdict)
  qed
  with c2 show ?thesis by auto
qed

lemma process_row_gemini_Inr:
  assumes "process_row_gemini e ac dir g (i, row) t w = (Inr t', w')"
  shows "\<exists>p r. calls w' = calls w @ [(p, r)] \<and>
     t' = set_at (set_at (set_at t i ''AI_Response'' (Str (response_text r))) i ''AI_P_F''
            (Str (pass_fail_of (text_of r)))) i ''Compliant'' (Str (compliant_of (text_of r)))"
proof -
  from assms obtain rcd where rcd: "map_of row ac = Some rcd"
    by (auto simp: process_row_gemini_def split: option.splits)
  obtain r w2 where q: "query_gemini e i (prompt_of rcd)
      (emit CONSOLE (''Querying Gemini for record '' @ str_nat (i + 1) @ '' out of '' @
                       str_nat (nrows t) @ ''...'')
         (emit INFO (''Querying Gemini for row '' @ str_nat (i + 1) @ '': '' @ prompt_of rcd) w)) = (r, w2)"
    by fastforce
  have c2: "calls w2 = calls w @ [(prompt_of rcd, r)]"
    using query_gemini_calls[OF q] by simp
  have "calls w' = calls w2 \<and>
     t' = set_at (set_at (set_at t i ''AI_Response'' (Str (response_text r))) i ''AI_P_F''
            (Str (pass_fail_of (text_of r)))) i ''Compliant'' (Str (compliant_of (text_of r)))"
  proof (cases "truthy r")
    case True
    with assms rcd q show ?thesis
      unfolding process_row_gemini_def generate_pdf_gemini_def
      by (auto simp: Let_def response_text_simps dest!: generate_pdf_with_calls
               split: if_splits prod.splits sum.splits)
  next
    case False
    with assms rcd q show ?thesis
      unfolding process_row_gemini_def
      by (auto simp: Let_def response_text_simps not_truthy_verdict)
  qed
  with c2 show ?thesis by auto
qed

lemma process_row_step:
  assumes b: "process_row e ac dir (i, row) t w = (Inr t', w')"
    and wf: "wf_table t" and i: "i < nrows t"
  shows "wf_table t' \<and> nrows t' = nrows t \<and> (\<exists>r. calls w' = calls w @ [r] \<and> row_done t' i r) \<and>
         (\<forall>j c x. j \<noteq> i \<longrightarrow> cell_at t j c = Some x \<longrightarrow> cell_at t' j c = Some x)"
proof -
  from process_row_Inr[OF b] obtain p r where c': "calls w' = calls w @ [(p, r)]"
    and t': "t' = set_at (set_at t i ''AI_Response'' (Str (response_text r))) i ''AI_P_F''
            (Str (pass_fail_of (text_of r)))" by blast
  define t1 where "t1 = set_at t i ''AI_Response'' (Str (response_text r))"
  have wf1: "wf_table t1" unfolding t1_def using wf by (rule wf_set_at)
  have i1: "i < nrows t1" using i by (simp add: t1_def)
  have a: "cell_at t1 i ''AI_Response'' = Some (Str (response_text r))"
    unfolding t1_def using wf i by (rule cell_at_set_at_same)
  have "row_done t' i (p, r)"
    unfolding row_done_def t' t1_def[symmetric]
    using cell_at_set_at_same[OF wf1 i1, of "''AI_P_F''" "Str (pass_fail_of (text_of r))"]
      cell_at_set_at_other[OF _ a, of i "''AI_P_F''" "Str (pass_fail_of (text_of r))"] by simp
  moreover have "wf_table t'" unfolding t' t1_def[symmetric] using wf1 by (rule wf_set_at)
  moreover have "nrows t' = nrows t" unfolding t' by simp
  moreover have "\<forall>j c x. j \<noteq> i \<longrightarrow> cell_at t j c = Some x \<longrightarrow> cell_at t' j c = Some x"
    unfolding t' by (intro allI impI cell_at_set_at_other) simp_all
  ultimately show ?thesis using c' by auto
qed

lemma process_row_gemini_step:
  assumes b: "process_row_gemini e ac dir g (i, row) t w = (Inr t', w')"
    and wf: "wf_table t" and i: "i < nrows t"
  shows "wf_table t' \<and> nrows t' = nrows t \<and> (\<exists>r. calls w' = calls w @ [r] \<and> row_done_gemini t' i r) \<and>
         (\<forall>j c x. j \<noteq> i \<longrightarrow> cell_at t j c = Some x \<longrightarrow> cell_at t' j c = Some x)"
proof -
  from process_row_gemini_Inr[OF b] obtain p r where c': "calls w' = calls w @ [(p, r)]"
    and t': "t' = set_at (set_at (set_at t i ''AI_Response'' (Str (response_text r))) i ''AI_P_F''
            (Str (pass_fail_of (text_of r)))) i ''Compliant'' (Str (compliant_of (text_of r)))" by blast
  define t1 where "t1 = set_at t i ''AI_Response'' (Str (response_text r))"
  define t2 where "t2 = set_at t1 i ''AI_P_F'' (Str (pass_fail_of (text_of r)))"
  have wf1: "wf_table t1" unfolding t1_def using wf by (rule wf_set_at)
  have wf2: "wf_table t2" unfolding t2_def using wf1 by (rule wf_set_at)
  have i1: "i < nrows t1" using i by (simp add: t1_def)
  have i2: "i < nrows t2" using i by (simp add: t1_def t2_def)
  have a: "cell_at t1 i ''AI_Response'' = Some (Str (response_text r))"
    unfolding t1_def using wf i by (rule cell_at_set_at_same)
  have a2: "cell_at t2 i ''AI_Response'' = Some (Str (response_text r))"
    unfolding t2_def
    using cell_at_set_at_other[OF _ a, of i "''AI_P_F''" "Str (pass_fail_of (text_of r))"] by simp
  have b2: "cell_at t2 i ''AI_P_F'' = Some (Str (pass_fail_of (text_of r)))"
    unfolding t2_def using wf1 i1 by (rule cell_at_set_at_same)
  have "row_done_gemini t' i (p, r)"
    unfolding row_done_gemini_def row_done_def t' t1_def[symmetric] t2_def[symmetric]
    using cell_at_set_at_same[OF wf2 i2, of "''Compliant''" "Str (compliant_of (text_of r))"]
      cell_at_set_at_other[OF _ a2, of i "''Compliant''" "Str (compliant_of (text_of r))"]
      cell_at_set_at_other[OF _ b2, of i "''Compliant''" "Str (compliant_of (text_of r))"]
    by simp
  moreover have "wf_table t'" unfolding t' t1_def[symmetric] t2_def[symmetric] using wf2 by (rule wf_set_at)
  moreover have "nrows t' = nrows t" unfolding t' by simp
  moreover have "\<forall>j c x. j \<noteq> i \<longrightarrow> cell_at t j c = Some x \<longrightarrow> cell_at t' j c = Some x"
    unfolding t' by (intro allI impI cell_at_set_at_other) simp_all
  ultimately show ?thesis using c' by auto
qed

lemma row_done_stable:
  "row_done t i r \<Longrightarrow> (\<forall>c x. cell_at t i c = Some x \<longrightarrow> cell_at t' i c = Some x) \<Longrightarrow> row_done t' i r"
  by (simp add: row_done_def)

lemma row_done_gemini_stable:
  "row_done_gemini t i r \<Longrightarrow> (\<forall>c x. cell_at t i c = Some x \<longrightarrow> cell_at t' i c = Some x) \<Longrightarrow>
   row_done_gemini t' i r"
  by (simp add: row_done_gemini_def row_done_def)

lemma classify_rows_done:
  assumes run: "classify_rows e ac dir t w = (Inr t', w')" and wf: "wf_table t"
  shows "nrows t' = nrows t \<and> length (calls w') = length (calls w) + nrows t \<and>
         (\<forall>i<nrows t. row_done t' i (calls w' ! (length (calls w) + i)))"
proof -
  have loop: "for_each (process_row e ac dir) (map (\<lambda>i. (i, get_row t i)) [0..<nrows t]) t w = (Inr t', w')"
    using run by (simp add: classify_rows_def iterrows_def)
  have R: "wf_table t' \<and> nrows t' = nrows t \<and>
         (\<exists>rs. length rs = length [0..<nrows t] \<and> calls w' = calls w @ rs \<and>
            (\<forall>k<length [0..<nrows t]. row_done t' ([0..<nrows t] ! k) (rs ! k))) \<and>
         (\<forall>j c x. j \<notin> set [0..<nrows t] \<longrightarrow> cell_at t j c = Some x \<longrightarrow> cell_at t' j c = Some x)"
  proof (rule for_each_rows[where Q = row_done and body = "process_row e ac dir"])
    show "for_each (process_row e ac dir) (map (\<lambda>i. (i, get_row t i)) [0..<nrows t]) t w = (Inr t', w')"
      by (rule loop)
    show "wf_table t" by (rule wf)
    show "distinct [0..<nrows t]" by simp
    show "\<forall>i\<in>set [0..<nrows t]. i < nrows t" by simp
  qed (erule (2) process_row_step, erule (1) row_done_stable)
  then have n: "nrows t' = nrows t" by (rule conjunct1[OF conjunct2])
  from R obtain rs where l0: "length rs = length [0..<nrows t]"
    and c: "calls w' = calls w @ rs"
    and q0: "\<forall>k<length [0..<nrows t]. row_done t' ([0..<nrows t] ! k) (rs ! k)"
    by blast
  have l: "length rs = nrows t" using l0 by simp
  have q: "\<forall>k<nrows t. row_done t' k (rs ! k)"
  proof (intro allI impI)
    fix k assume k: "k < nrows t"
    with q0 have "row_done t' ([0..<nrows t] ! k) (rs ! k)" by simp
    with k show "row_done t' k (rs ! k)" by simp
  qed
  show ?thesis using n l c q by (simp add: nth_append)
qed

lemma classify_rows_gemini_done:
  assumes run: "classify_rows_gemini e ac dir g t w = (Inr t', w')" and wf: "wf_table t"
  shows "nrows t' = nrows t \<and> length (calls w') = length (calls w) + nrows t \<and>
         (\<forall>i<nrows t. row_done_gemini t' i (calls w' ! (length (calls w) + i)))"
proof -
  have loop: "for_each (process_row_gemini e ac dir g) (map (\<lambda>i. (i, get_row t i)) [0..<nrows t]) t w = (Inr t', w')"
    using run by (simp add: classify_rows_gemini_def iterrows_def)
  have R: "wf_table t' \<and> nrows t' = nrows t \<and>
         (\<exists>rs. length rs = length [0..<nrows t] \<and> calls w' = calls w @ rs \<and>
            (\<forall>k<length [0..<nrows t]. row_done_gemini t' ([0..<nrows t] ! k) (rs ! k))) \<and>
         (\<forall>j c x. j \<notin> set [0..<nrows t] \<longrightarrow> cell_at t j c = Some x \<longrightarrow> cell_at t' j c = Some x)"
  proof (rule for_each_rows[where Q = row_done_gemini and body = "process_row_gemini e ac dir g"])
    show "for_each (process_row_gemini e ac dir g) (map (\<lambda>i. (i, get_row t i)) [0..<nrows t]) t w = (Inr t', w')"
      by (rule loop)
    show "wf_table t" by (rule wf)
    show "distinct [0..<nrows t]" by simp
    show "\<forall>i\<in>set [0..<nrows t]. i < nrows t" by simp
  qed (erule (2) process_row_gemini_step, erule (1) row_done_gemini_stable)
  then have n: "nrows t' = nrows t" by (rule conjunct1[OF conjunct2])
  from R obtain rs where l0: "length rs = length [0..<nrows t]"
    and c: "calls w' = calls w @ rs"
    and q0: "\<forall>k<length [0..<nrows t]. row_done_gemini t' ([0..<nrows t] ! k) (rs ! k)"
    by blast
  have l: "length rs = nrows t" using l0 by simp
  have q: "\<forall>k<nrows t. row_done_gemini t' k (rs ! k)"
  proof (intro allI impI)
    fix k assume k: "k < nrows t"
    with q0 have "row_done_gemini t' ([0..<nrows t] ! k) (rs ! k)" by simp
    with k show "row_done_gemini t' k (rs ! k)" by simp
  qed
  show ?thesis using n l c q by (simp add: nth_append)
qed

section \<open>Classification\<close>

lemma verdict_strings:
  "(pass_fail_of s = ''PASSED'') = contains ''pass'' (lower s)"
  "(pass_fail_of s = ''FAILED'') = (contains ''fail'' (lower s) \<and> \<not> contains ''pass'' (lower s))"
  "(pass_fail_of s = ''UNKNOWN'') = (\<not> contains ''pass'' (lower s) \<and> \<not> contains ''fail'' (lower s))"
  by (auto simp: pass_fail_of_def)

lemma Inr_of_not_isl: "\<not> isl (fst r) \<Longrightarrow> r = (Inr (projr (fst r)), snd r)"
  by (cases r, cases "fst r") auto

lemma example_run_ok:
  "\<not> isl (fst (classify_rows example_env ''Note'' ''pdf_reports'' example_notes quiet))"
  by code_simp

lemma example_run_reply:
  "contains ''pass'' (lower (text_of (snd (calls (snd
     (classify_rows example_env ''Note'' ''pdf_reports'' example_notes quiet)) ! 1)))) \<and>
   contains ''fail'' (lower (text_of (snd (calls (snd
     (classify_rows example_env ''Note'' ''pdf_reports'' example_notes quiet)) ! 1))))"
  by code_simp

lemma wf_example_notes: "wf_table example_notes"
  by (simp add: wf_table_def example_notes_def names_def)

text \<open>
  C1. In a finished classification (of main.py or of gemini_process.py), the verdict of
  every row is PASSED if and only if the lower-cased reply of the row's query contains
  "pass"; it is FAILED if and only if the reply contains "fail" and not "pass"; it is
  UNKNOWN otherwise. A reply with both words is PASSED, as the witness shows.
\<close>

theorem verdict_of_classified_rows:
  assumes "wf_table data"
    and "classify_rows e analysis_column pdf_output_dir data w = (Inr data', w') \<or>
         classify_rows_gemini e analysis_column pdf_output_dir generate_pdfs data w = (Inr data', w')"
    and "i < nrows data"
  shows "\<exists>v. cell_at data' i ''AI_P_F'' = Some (Str v) \<and>
           (let reply = lower (text_of (snd (calls w' ! (length (calls w) + i))))
            in (v = ''PASSED'' \<longleftrightarrow> contains ''pass'' reply) \<and>
               (v = ''FAILED'' \<longleftrightarrow> contains ''fail'' reply \<and> \<not> contains ''pass'' reply) \<and>
               (v = ''UNKNOWN'' \<longleftrightarrow> \<not> contains ''pass'' reply \<and> \<not> contains ''fail'' reply))"
proof -
  have "row_done data' i (calls w' ! (length (calls w) + i))"
    using assms classify_rows_done[of e analysis_column pdf_output_dir data w data' w']
      classify_rows_gemini_done[of e analysis_column pdf_output_dir generate_pdfs data w data' w']
    by (auto simp: row_done_gemini_def)
  then show ?thesis
    by (simp add: row_done_def verdict_strings Let_def)
qed

theorem verdict_of_classified_rows_witness:
  "wf_table example_notes \<and> (1::nat) < nrows example_notes \<and>
   \<not> isl (fst (classify_rows example_env ''Note'' ''pdf_reports'' example_notes quiet)) \<and>
   cell_at (projr (fst (classify_rows example_env ''Note'' ''pdf_reports'' example_notes quiet))) 1 ''AI_P_F''
     = Some (Str ''PASSED'') \<and>
   contains ''pass'' (lower (text_of (snd (calls (snd
     (classify_rows example_env ''Note'' ''pdf_reports'' example_notes quiet)) ! 1)))) \<and>
   contains ''fail'' (lower (text_of (snd (calls (snd
     (classify_rows example_env ''Note'' ''pdf_reports'' example_notes quiet)) ! 1))))"
proof -
  define r where "r = classify_rows example_env ''Note'' ''pdf_reports'' example_notes quiet"
  have i: "(1::nat) < nrows example_notes" by (simp add: example_notes_def)
  have ok: "\<not> isl (fst r)" unfolding r_def by (rule example_run_ok)
  have c: "contains ''pass'' (lower (text_of (snd (calls (snd r) ! 1)))) \<and>
           contains ''fail'' (lower (text_of (snd (calls (snd r) ! 1))))"
    unfolding r_def by (rule example_run_reply)
  have run: "classify_rows example_env ''Note'' ''pdf_reports'' example_notes quiet =
      (Inr (projr (fst r)), snd r)"
    unfolding r_def[symmetric] using ok by (rule Inr_of_not_isl)
  from verdict_of_classified_rows[where generate_pdfs = True, OF wf_example_notes disjI1[OF run] i]
  obtain v where v: "cell_at (projr (fst r)) 1 ''AI_P_F'' = Some (Str v)"
    and p: "v = ''PASSED'' \<longleftrightarrow> contains ''pass'' (lower (text_of (snd (calls (snd r) ! (length (calls quiet) + 1)))))"
    unfolding Let_def by blast
  have "length (calls quiet) + 1 = 1" by (simp add: quiet_def)
  with p c have "v = ''PASSED''" by simp
  with v have "cell_at (projr (fst r)) 1 ''AI_P_F'' = Some (Str ''PASSED'')" by simp
  with wf_example_notes i ok c show ?thesis unfolding r_def by blast
qed

end
